theory Spec2Isabelle
  imports Complex_Main "HOL-Library.List_Lexorder" "HOL-Library.Char_ord"
begin

section \<open>Deskmate-AI: adaptive command resolution and undo/redo history\<close>

text \<open>
  A shallow embedding of the Python sources \<^verbatim>\<open>backend/services/undo_redo.py\<close>,
  \<^verbatim>\<open>backend/services/database.py\<close>, \<^verbatim>\<open>backend/core/mapper.py\<close>,
  \<^verbatim>\<open>backend/core/learner.py\<close> and \<^verbatim>\<open>backend/core/command_handler.py\<close>.

  Conventions. A Python \<^verbatim>\<open>str\<close> is a \<^typ>\<open>string\<close> whose characters are code points
  below 256. A Python list used as a stack keeps its top at the end (\<^verbatim>\<open>append\<close> is
  \<open>xs @ [x]\<close>, \<^verbatim>\<open>pop()\<close> takes \<^term>\<open>last xs\<close> and leaves \<^term>\<open>butlast xs\<close>). A raised
  exception is the \<open>Inl\<close> of a sum or the \<open>None\<close> of an option. What lies outside the
  repository (importable modules and their functions, the fuzzywuzzy ratio, the regular
  expression engine, the answers of the user, the SQLite file being writable) is a
  parameter of the operation that uses it.
\<close>

subsection \<open>Python values\<close>

datatype pyval = PNone | PStr string | PDict "(string \<times> pyval) list"

type_synonym pydict = "(string \<times> pyval) list"

text \<open>A callable takes positional and keyword arguments; \<open>Inl msg\<close> is an exception
  whose \<^verbatim>\<open>str()\<close> is \<open>msg\<close>, \<open>Inr v\<close> is the returned value.\<close>

type_synonym callable = "string list \<Rightarrow> (string \<times> string) list \<Rightarrow> string + pyval"

text \<open>\<^verbatim>\<open>importlib.import_module(name)\<close>: \<open>None\<close> when the import raises, otherwise the
  attribute table of the module (\<open>None\<close> for a missing attribute).\<close>

type_synonym modules = "string \<Rightarrow> (string \<Rightarrow> callable option) option"

subsection \<open>services/undo\_redo.py\<close>

record ActionRecord =
  function_path :: string
  args :: "string list"
  kwargs :: "(string \<times> string) list"
  reversible :: bool
  undo_function_path :: "string option"

text \<open>The two stacks of the module-level \<^verbatim>\<open>_MANAGER\<close>, the rows \<open>(command, action)\<close>
  of the \<^verbatim>\<open>history\<close> table (the timestamp column is left out), and a trace of the calls
  made through imported function references, in call order.\<close>

record world =
  executed_stack :: "ActionRecord list"
  undone_stack :: "ActionRecord list"
  history :: "(string \<times> string) list"
  invoked :: "(string \<times> string list \<times> (string \<times> string) list) list"

text \<open>\<^verbatim>\<open>db.log_history(command, action)\<close>; \<open>ok\<close> says whether the INSERT commits
  (\<open>None\<close> is the exception of a failed write).\<close>

definition log_history :: "bool \<Rightarrow> world \<Rightarrow> string \<Rightarrow> string \<Rightarrow> world option" where
  "log_history ok w command action =
     (if ok then Some (w\<lparr>history := history w @ [(command, action)]\<rparr>) else None)"

text \<open>\<^verbatim>\<open>str.rsplit(sep, 1)\<close> for a string that contains \<open>sep\<close>.\<close>

definition rsplit1 :: "char \<Rightarrow> string \<Rightarrow> string \<times> string" where
  "rsplit1 sep s =
     (rev (drop 1 (dropWhile (\<lambda>c. c \<noteq> sep) (rev s))), rev (takeWhile (\<lambda>c. c \<noteq> sep) (rev s)))"

definition import_function :: "modules \<Rightarrow> string \<Rightarrow> callable option" where
  "import_function mods path =
     (if path = [] \<or> CHR ''.'' \<notin> set path then None
      else (case rsplit1 (CHR ''.'') path of
              (module_name, func_name) \<Rightarrow>
                (case mods module_name of
                   None \<Rightarrow> None
                 | Some attrs \<Rightarrow> attrs func_name)))"

definition record_action ::
  "bool \<Rightarrow> world \<Rightarrow> string \<Rightarrow> string list option \<Rightarrow> (string \<times> string) list option
     \<Rightarrow> bool \<Rightarrow> string option \<Rightarrow> world" where
  "record_action ok w fpath a k rev_flag undo_path =
     (let record = \<lparr>function_path = fpath,
                    args = (case a of None \<Rightarrow> [] | Some xs \<Rightarrow> xs),
                    kwargs = (case k of None \<Rightarrow> [] | Some ys \<Rightarrow> ys),
                    reversible = rev_flag,
                    undo_function_path = undo_path\<rparr>;
          w1 = w\<lparr>executed_stack := executed_stack w @ [record], undone_stack := []\<rparr>
      in (case log_history ok w1 fpath ''EXECUTE'' of
            None \<Rightarrow> w1
          | Some w2 \<Rightarrow> w2))"

definition undo_last :: "modules \<Rightarrow> bool \<Rightarrow> world \<Rightarrow> pydict \<times> world" where
  "undo_last mods ok w =
     (if executed_stack w = [] then
        ([(''status'', PStr ''error''), (''message'', PStr ''Nothing to undo'')], w)
      else
        let record = last (executed_stack w);
            w1 = w\<lparr>executed_stack := butlast (executed_stack w),
                   undone_stack := undone_stack w @ [record]\<rparr>;
            w2 = (case log_history ok w1 (function_path record) ''UNDO'' of
                    None \<Rightarrow> w1
                  | Some w' \<Rightarrow> w')
        in (case (if reversible record then undo_function_path record else None) of
              None \<Rightarrow>
                ([(''status'', PStr ''error''), (''message'', PStr ''Action is not reversible''),
                  (''function_executed'', PNone)], w2)
            | Some upath \<Rightarrow>
                if upath = [] then
                  ([(''status'', PStr ''error''), (''message'', PStr ''Action is not reversible''),
                    (''function_executed'', PNone)], w2)
                else
                  (case import_function mods upath of
                     None \<Rightarrow>
                       ([(''status'', PStr ''error''), (''message'', PStr ''Undo function not found''),
                         (''function_executed'', PNone)], w2)
                   | Some undo_fn \<Rightarrow>
                       let w3 = w2\<lparr>invoked := invoked w2 @ [(upath, args record, kwargs record)]\<rparr>
                       in (case undo_fn (args record) (kwargs record) of
                             Inl msg \<Rightarrow>
                               ([(''status'', PStr ''error''), (''message'', PStr msg),
                                 (''function_executed'', PNone)], w3)
                           | Inr v \<Rightarrow>
                               ([(''status'', PStr ''success''), (''message'', PStr ''Undo executed''),
                                 (''function_executed'', PStr upath)], w3)))))"

definition redo_last :: "modules \<Rightarrow> bool \<Rightarrow> world \<Rightarrow> pydict \<times> world" where
  "redo_last mods ok w =
     (if undone_stack w = [] then
        ([(''status'', PStr ''error''), (''message'', PStr ''Nothing to redo'')], w)
      else
        let record = last (undone_stack w);
            w1 = w\<lparr>undone_stack := butlast (undone_stack w),
                   executed_stack := executed_stack w @ [record]\<rparr>;
            w2 = (case log_history ok w1 (function_path record) ''REDO'' of
                    None \<Rightarrow> w1
                  | Some w' \<Rightarrow> w')
        in (case import_function mods (function_path record) of
              None \<Rightarrow>
                ([(''status'', PStr ''error''), (''message'', PStr ''Function not found for redo''),
                  (''function_executed'', PNone)], w2)
            | Some redo_fn \<Rightarrow>
                let w3 = w2\<lparr>invoked := invoked w2 @ [(function_path record, args record, kwargs record)]\<rparr>
                in (case redo_fn (args record) (kwargs record) of
                      Inl msg \<Rightarrow>
                        ([(''status'', PStr ''error''), (''message'', PStr msg),
                          (''function_executed'', PNone)], w3)
                    | Inr v \<Rightarrow>
                        ([(''status'', PStr ''success''), (''message'', PStr ''Redo executed''),
                          (''function_executed'', PStr (function_path record))], w3))))"

text \<open>\<^verbatim>\<open>UndoRedoManager.__init__\<close> with an empty history table.\<close>

definition init_world :: world where
  "init_world = \<lparr>executed_stack = [], undone_stack = [], history = [], invoked = []\<rparr>"

subsection \<open>Python string operations\<close>

text \<open>\<^verbatim>\<open>str.isspace\<close> on one character, for code points below 256.\<close>

definition isspace :: "char \<Rightarrow> bool" where
  "isspace c = ((of_char c :: nat) \<in> {9, 10, 11, 12, 13, 28, 29, 30, 31, 32, 133, 160})"

definition strip :: "string \<Rightarrow> string" where
  "strip s = rev (dropWhile isspace (rev (dropWhile isspace s)))"

definition lower_char :: "char \<Rightarrow> char" where
  "lower_char c =
     (let n = (of_char c :: nat)
      in if (65 \<le> n \<and> n \<le> 90) \<or> (192 \<le> n \<and> n \<le> 222 \<and> n \<noteq> 215)
         then char_of (n + 32) else c)"

definition lower :: "string \<Rightarrow> string" where
  "lower s = map lower_char s"

text \<open>\<^verbatim>\<open>s.split()\<close>: the maximal runs of non-whitespace characters; \<open>cur\<close> is the
  run being read, reversed.\<close>

fun split_acc :: "string \<Rightarrow> string \<Rightarrow> string list" where
  "split_acc cur [] = (if cur = [] then [] else [rev cur])"
| "split_acc cur (c # cs) =
     (if isspace c
      then (if cur = [] then split_acc [] cs else rev cur # split_acc [] cs)
      else split_acc (c # cur) cs)"

definition split :: "string \<Rightarrow> string list" where
  "split s = split_acc [] s"

text \<open>\<^verbatim>\<open>s.split(sep, 1)\<close> for a one-character separator: one element when \<open>sep\<close> does
  not occur, otherwise the text before and the text after its first occurrence.\<close>

definition split1 :: "char \<Rightarrow> string \<Rightarrow> string list" where
  "split1 sep s =
     (if sep \<in> set s
      then [takeWhile (\<lambda>c. c \<noteq> sep) s, drop 1 (dropWhile (\<lambda>c. c \<noteq> sep) s)]
      else [s])"

text \<open>\<^verbatim>\<open>xs[i]\<close> for \<open>i \<ge> 0\<close>; \<open>None\<close> is the IndexError.\<close>

definition index :: "'a list \<Rightarrow> nat \<Rightarrow> 'a option" where
  "index xs i = (if i < length xs then Some (xs ! i) else None)"

definition startswith :: "string \<Rightarrow> string \<Rightarrow> bool" where
  "startswith s p = (take (length p) s = p)"

text \<open>Truth value of an optional string: \<^verbatim>\<open>None\<close> and \<^verbatim>\<open>""\<close> are false.\<close>

definition truthy :: "string option \<Rightarrow> bool" where
  "truthy so = (case so of None \<Rightarrow> False | Some s \<Rightarrow> s \<noteq> [])"

definition quoted :: "string \<Rightarrow> string" where
  "quoted s = CHR 0x27 # s @ [CHR 0x27]"

subsection \<open>services/database.py: the mappings table\<close>

text \<open>The rows \<open>(id, command_text, action_name)\<close> of table \<^verbatim>\<open>mappings\<close> in rowid order,
  and the AUTOINCREMENT counter of the table. \<^verbatim>\<open>command_text\<close> is declared UNIQUE.
  Statements on this table are taken to commit: a failing SQLite call is not a branch of
  the functions below.\<close>

record database =
  mappings :: "(nat \<times> string \<times> string) list"
  mappings_seq :: nat

text \<open>A mapping dict; a key that is absent is \<open>None\<close>.\<close>

record mapping =
  m_action_name :: "string option"
  m_module :: "string option"
  m_function :: "string option"
  m_args :: "string list option"
  m_kwargs :: "(string \<times> string) list option"

definition init_db :: database where
  "init_db = \<lparr>mappings = [], mappings_seq = 0\<rparr>"

text \<open>\<^verbatim>\<open>INSERT OR REPLACE INTO mappings(command_text, action_name)\<close>: the rows that
  conflict on the UNIQUE column are deleted, then the new row is inserted under a fresh id.\<close>

definition add_mapping :: "database \<Rightarrow> string \<Rightarrow> string \<Rightarrow> database" where
  "add_mapping d command_text action_name =
     \<lparr>mappings = filter (\<lambda>(i, c, a). c \<noteq> command_text) (mappings d)
                   @ [(mappings_seq d + 1, command_text, action_name)],
      mappings_seq = mappings_seq d + 1\<rparr>"

definition get_mapping :: "database \<Rightarrow> string \<Rightarrow> mapping option" where
  "get_mapping d command_text =
     (case find (\<lambda>(i, c, a). c = command_text) (mappings d) of
        None \<Rightarrow> None
      | Some (i, c, action_name) \<Rightarrow>
          Some (if CHR '':'' \<in> set action_name
                then \<lparr>m_action_name = Some action_name,
                      m_module = Some (takeWhile (\<lambda>x. x \<noteq> CHR '':'') action_name),
                      m_function = Some (drop 1 (dropWhile (\<lambda>x. x \<noteq> CHR '':'') action_name)),
                      m_args = Some [], m_kwargs = Some []\<rparr>
                else \<lparr>m_action_name = Some action_name, m_module = None, m_function = None,
                      m_args = None, m_kwargs = None\<rparr>))"

text \<open>\<^verbatim>\<open>SELECT command_text, action_name FROM mappings ORDER BY command_text ASC\<close>.\<close>

definition list_mappings :: "database \<Rightarrow> (string \<times> string) list" where
  "list_mappings d = sort_key fst (map (\<lambda>(i, c, a). (c, a)) (mappings d))"

definition upsert_mapping ::
  "database \<Rightarrow> string \<Rightarrow> string \<Rightarrow> string \<Rightarrow> string list option
     \<Rightarrow> (string \<times> string) list option \<Rightarrow> database" where
  "upsert_mapping d command module_name function_name a k =
     add_mapping d command
       (if module_name \<noteq> [] \<and> function_name \<noteq> [] then module_name @ '':'' @ function_name
        else if function_name \<noteq> [] then function_name
        else if module_name \<noteq> [] then module_name
        else [])"

definition list_commands :: "database \<Rightarrow> string list" where
  "list_commands d = map fst (list_mappings d)"

text \<open>\<^verbatim>\<open>clear_command_mapping\<close> of core/learner.py, as far as it writes the store:
  \<^verbatim>\<open>DELETE FROM mappings WHERE command_text = ?\<close> on the stripped command, nothing for a
  blank one.\<close>

definition clear_command_mapping :: "database \<Rightarrow> string \<Rightarrow> database" where
  "clear_command_mapping d command =
     (if strip command = [] then d
      else d\<lparr>mappings := filter (\<lambda>(i, c, a). c \<noteq> strip command) (mappings d)\<rparr>)"

text \<open>The writers of the mappings table, and a run of them.\<close>

datatype store_op =
    Add_mapping string string
  | Upsert_mapping string string string "string list option" "(string \<times> string) list option"
  | Clear_command_mapping string

fun apply_store_op :: "store_op \<Rightarrow> database \<Rightarrow> database" where
  "apply_store_op (Add_mapping c a) d = add_mapping d c a"
| "apply_store_op (Upsert_mapping c m f a k) d = upsert_mapping d c m f a k"
| "apply_store_op (Clear_command_mapping c) d = clear_command_mapping d c"

definition command_texts :: "database \<Rightarrow> string list" where
  "command_texts d = map (\<lambda>(i, c, a). c) (mappings d)"

definition rows_for :: "database \<Rightarrow> string \<Rightarrow> (nat \<times> string \<times> string) list" where
  "rows_for d command_text = filter (\<lambda>(i, c, a). c = command_text) (mappings d)"

subsection \<open>core/mapper.py: registry lookup and argument enrichment\<close>

datatype error = RuntimeError string | AttributeError string | ValueError string | ImportError string

definition str_of_error :: "error \<Rightarrow> string" where
  "str_of_error e =
     (case e of RuntimeError m \<Rightarrow> m | AttributeError m \<Rightarrow> m | ValueError m \<Rightarrow> m
              | ImportError m \<Rightarrow> m)"

text \<open>A registry entry: the schema \<^verbatim>\<open>{module_path, function_name}\<close> that
  \<^verbatim>\<open>CommandRegistry\<close> writes, or the direct schema \<^verbatim>\<open>{module, function}\<close> that the
  lookup also accepts.\<close>

datatype registry_entry = Module_path string string | Direct "string option" "string option"

text \<open>\<^verbatim>\<open>s.split(".")[-1]\<close>.\<close>

definition last_segment :: "string \<Rightarrow> string" where
  "last_segment s = rev (takeWhile (\<lambda>c. c \<noteq> CHR ''.'') (rev s))"

definition map_action_via_registry ::
  "(string \<Rightarrow> registry_entry option) option \<Rightarrow> string \<Rightarrow> mapping option" where
  "map_action_via_registry reg action_key =
     (case reg of
        None \<Rightarrow> None
      | Some registry \<Rightarrow>
          (case registry action_key of
             None \<Rightarrow> None
           | Some entry \<Rightarrow>
               (case (case entry of
                        Module_path mpath fname \<Rightarrow> (Some (last_segment mpath), Some fname)
                      | Direct mo fo \<Rightarrow> (mo, fo)) of
                  (module_name, function_name) \<Rightarrow>
                    if \<not> truthy module_name \<or> \<not> truthy function_name then None
                    else Some \<lparr>m_action_name = None, m_module = module_name,
                               m_function = function_name,
                               m_args = Some [], m_kwargs = Some []\<rparr>)))"

text \<open>The extraction rules of \<^verbatim>\<open>_enrich_mapping_with_args\<close>, entered with empty
  \<^verbatim>\<open>args\<close>. \<open>re_search text\<close> is group 1 of
  \<^verbatim>\<open>re.search(r"(https?://\S+|www\.\S+|\w+\.\w{2,})", text, re.IGNORECASE)\<close>, \<open>None\<close>
  without a match. The result \<open>None\<close> is the IndexError of \<^verbatim>\<open>[1]\<close>.\<close>

definition extract_args ::
  "(string \<Rightarrow> string option) \<Rightarrow> string \<Rightarrow> string \<Rightarrow> string \<Rightarrow> string list option" where
  "extract_args re_search module_name function_name text_command =
     (let text = strip text_command; lower_text = lower text
      in if module_name = ''apps'' \<and> (function_name = ''open_app'' \<or> function_name = ''close_app'')
         then (if 2 \<le> length (split lower_text)
               then (case index (split1 (CHR '' '') text) 1 of
                       None \<Rightarrow> None
                     | Some rest \<Rightarrow> if strip rest \<noteq> [] then Some [strip rest] else Some [])
               else Some [])
         else if module_name = ''browser'' \<and> function_name = ''open_url''
         then (case re_search text of
                 Some g \<Rightarrow> Some [g]
               | None \<Rightarrow>
                   if startswith lower_text ''open '' \<and> 2 \<le> length (split lower_text)
                   then (case index (split lower_text) 1 of
                           None \<Rightarrow> None
                         | Some token \<Rightarrow> Some [''https://'' @ token @ ''.com''])
                   else Some [])
         else if module_name = ''browser'' \<and> function_name = ''search_google''
         then (if startswith lower_text ''search ''
               then (case index (split1 (CHR '' '') text) 1 of
                       None \<Rightarrow> None
                     | Some rest \<Rightarrow> Some [if strip rest \<noteq> [] then strip rest else text])
               else Some [text])
         else if module_name = ''youtube''
                 \<and> (function_name = ''play_video'' \<or> function_name = ''search_and_play'')
         then (if CHR '' '' \<in> set text
               then (case index (split1 (CHR '' '') text) 1 of
                       None \<Rightarrow> None
                     | Some rest \<Rightarrow> Some [strip rest])
               else Some [text])
         else Some [])"

definition enrich_mapping_with_args ::
  "(string \<Rightarrow> string option) \<Rightarrow> string \<Rightarrow> mapping \<Rightarrow> mapping" where
  "enrich_mapping_with_args re_search text_command mapping =
     (let module_name = strip (case m_module mapping of None \<Rightarrow> [] | Some x \<Rightarrow> x);
          function_name = strip (case m_function mapping of None \<Rightarrow> [] | Some x \<Rightarrow> x);
          a = (case m_args mapping of None \<Rightarrow> [] | Some xs \<Rightarrow> xs);
          k = (case m_kwargs mapping of None \<Rightarrow> [] | Some ys \<Rightarrow> ys)
      in if a \<noteq> []
         then \<lparr>m_action_name = None, m_module = Some module_name,
               m_function = Some function_name, m_args = Some a, m_kwargs = Some k\<rparr>
         else (case extract_args re_search module_name function_name text_command of
                 None \<Rightarrow> mapping
               | Some a' \<Rightarrow>
                   \<lparr>m_action_name = None, m_module = Some module_name,
                    m_function = Some function_name, m_args = Some a', m_kwargs = Some k\<rparr>))"

subsection \<open>core/learner.py: construction of the Learner\<close>

text \<open>The names defined in the body of \<^verbatim>\<open>class Learner\<close>. The four definitions that
  follow \<^verbatim>\<open>clear_command_mapping\<close> in the file (\<^verbatim>\<open>_validate_mapping\<close>,
  \<^verbatim>\<open>_default_commands_path\<close>, \<^verbatim>\<open>_load_commands_index\<close>, \<^verbatim>\<open>_import_database\<close>) are
  indented under that module-level function, so they are local to it and are not
  attributes of the class.\<close>

definition Learner_attributes :: "string list" where
  "Learner_attributes =
     [''__init__'', ''handle_unknown'', ''_suggest_action'', ''_map_action_via_registry'',
      ''_persist_mapping'', ''_list_registry_actions'', ''_print_box'',
      ''_prompt_module_choice'', ''_list_module_functions'', ''_prompt_function_choice'',
      ''_interactive_manual_map'']"

text \<open>\<^verbatim>\<open>Learner.__init__\<close>: the attribute lookups on \<^verbatim>\<open>self\<close> in statement order;
  a name that the class does not define raises AttributeError. (The registry import
  between them sits in its own try block.)\<close>

definition Learner_init :: "string option \<Rightarrow> error + unit" where
  "Learner_init config_path =
     (if \<not> truthy config_path \<and> ''_default_commands_path'' \<notin> set Learner_attributes
      then Inl (AttributeError ''_default_commands_path'')
      else if ''_import_database'' \<notin> set Learner_attributes
      then Inl (AttributeError ''_import_database'')
      else if ''_load_commands_index'' \<notin> set Learner_attributes
      then Inl (AttributeError ''_load_commands_index'')
      else Inr ())"

subsection \<open>core/mapper.py: the resolver\<close>

text \<open>The state of an \<^verbatim>\<open>AdaptiveMapper\<close> and what it calls. \<open>intent_recognizer\<close> and
  \<open>confirm_callback\<close> answer \<open>None\<close> when they raise. \<open>registry\<close>, \<open>db\<close> are \<open>None\<close>
  and \<open>learner_ctor\<close> is false when the import in \<^verbatim>\<open>__init__\<close> failed.
  \<open>token_set_ratio\<close> is \<^verbatim>\<open>fuzz.token_set_ratio\<close> (an integer from 0 to 100) of an
  installed fuzzywuzzy. A confidence is a real number: the comparison with 0.8 is exact.
  \<open>handle_unknown\<close> stands for the method of a constructed Learner: it gets the text and
  the store and raises or returns its result dict and the store it leaves.\<close>

record AdaptiveMapper =
  intent_recognizer :: "(string \<Rightarrow> (string option \<times> real) option) option"
  confirm_callback :: "string \<Rightarrow> bool option"
  commands_config_path :: string
  registry :: "(string \<Rightarrow> registry_entry option) option"
  db :: "database option"
  learner_ctor :: bool
  commands_index :: "(string \<times> string list) list"
  token_set_ratio :: "string \<Rightarrow> string \<Rightarrow> nat"
  re_search :: "string \<Rightarrow> string option"
  handle_unknown :: "string \<Rightarrow> database option \<Rightarrow> error + (pydict \<times> database option)"

text \<open>What a run of the resolver asks of the user and of the Learner, in order.\<close>

datatype event = Confirm string | Learner_ctor | Handle_unknown string

definition get_db_mapping :: "AdaptiveMapper \<Rightarrow> string \<Rightarrow> mapping option" where
  "get_db_mapping mp command_text =
     (case db mp of None \<Rightarrow> None | Some d \<Rightarrow> get_mapping d command_text)"

definition list_db_commands :: "AdaptiveMapper \<Rightarrow> string list" where
  "list_db_commands mp = (case db mp of None \<Rightarrow> [] | Some d \<Rightarrow> list_commands d)"

text \<open>The loop of \<^verbatim>\<open>_recognize_or_match\<close> over \<^verbatim>\<open>_commands_index.items()\<close>.\<close>

fun best_action ::
  "(string \<Rightarrow> string \<Rightarrow> nat) \<Rightarrow> string \<Rightarrow> (string \<times> string list) list
     \<Rightarrow> string option \<times> nat \<Rightarrow> string option \<times> nat" where
  "best_action ratio text [] best = best"
| "best_action ratio text ((action_key, synonyms) # rest) (best_key, best_score) =
     (let score = foldr max (map (ratio text) synonyms) (ratio text action_key)
      in if best_score < score then best_action ratio text rest (Some action_key, score)
         else best_action ratio text rest (best_key, best_score))"

definition recognize_or_match :: "AdaptiveMapper \<Rightarrow> string \<Rightarrow> string option \<times> real" where
  "recognize_or_match mp text_command =
     (case (case intent_recognizer mp of
              None \<Rightarrow> None
            | Some recognizer \<Rightarrow>
                (case recognizer text_command of
                   None \<Rightarrow> None
                 | Some (intent_key, confidence) \<Rightarrow>
                     if truthy intent_key then Some (intent_key, confidence) else None)) of
        Some recognized \<Rightarrow> recognized
      | None \<Rightarrow>
          (case best_action (token_set_ratio mp) text_command (commands_index mp) (None, 0) of
             (best_key, best_score) \<Rightarrow>
               if truthy best_key then (best_key, real best_score / 100) else (None, 0)))"

text \<open>The loop of \<^verbatim>\<open>_match_existing_db_command\<close> over the stored command texts.\<close>

fun best_command ::
  "(string \<Rightarrow> string \<Rightarrow> nat) \<Rightarrow> string \<Rightarrow> string list
     \<Rightarrow> string option \<times> nat \<Rightarrow> string option \<times> nat" where
  "best_command ratio text [] best = best"
| "best_command ratio text (cmd_text # rest) (best_text, best_score) =
     (if best_score < ratio text cmd_text
      then best_command ratio text rest (Some cmd_text, ratio text cmd_text)
      else best_command ratio text rest (best_text, best_score))"

definition match_existing_db_command :: "AdaptiveMapper \<Rightarrow> string \<Rightarrow> mapping option" where
  "match_existing_db_command mp text_command =
     (if list_db_commands mp = [] then None
      else (case best_command (token_set_ratio mp) text_command (list_db_commands mp) (None, 0) of
              (best_text, best_score) \<Rightarrow>
                (case best_text of
                   None \<Rightarrow> None
                 | Some t \<Rightarrow> if t \<noteq> [] \<and> 80 \<le> best_score then get_db_mapping mp t else None)))"

text \<open>\<^verbatim>\<open>resolve_command\<close>, last part (from \<^verbatim>\<open>if not self._learner_ctor\<close>): the Learner is
  built and asked, then the store is read again.\<close>

definition learn_unknown :: "AdaptiveMapper \<Rightarrow> string \<Rightarrow> event list \<times> (error + mapping)" where
  "learn_unknown mp text_command =
     (if \<not> learner_ctor mp
      then ([], Inl (RuntimeError ''Learner is not available to handle unknown commands''))
      else (case Learner_init (Some (commands_config_path mp)) of
              Inl e \<Rightarrow> ([Learner_ctor], Inl (RuntimeError ''Adaptive learner unavailable''))
            | Inr u \<Rightarrow>
                (case handle_unknown mp text_command (db mp) of
                   Inl e \<Rightarrow> ([Learner_ctor, Handle_unknown text_command], Inl e)
                 | Inr (learn_result, db') \<Rightarrow>
                     if map_of learn_result ''status'' \<noteq> Some (PStr ''success'')
                     then ([Learner_ctor, Handle_unknown text_command],
                           Inl (RuntimeError ''Failed to learn mapping for unknown command''))
                     else (case get_db_mapping (mp\<lparr>db := db'\<rparr>) text_command of
                             None \<Rightarrow>
                               ([Learner_ctor, Handle_unknown text_command],
                                Inl (RuntimeError ''Mapping not found in database after learning step''))
                           | Some mapping \<Rightarrow>
                               ([Learner_ctor, Handle_unknown text_command],
                                Inr (enrich_mapping_with_args (re_search mp) text_command mapping))))))"

text \<open>\<^verbatim>\<open>resolve_command\<close> from \<^verbatim>\<open>if action_key:\<close>: the confirmation prompt, then the
  Learner.\<close>

definition confirm_or_learn ::
  "AdaptiveMapper \<Rightarrow> string option \<Rightarrow> string \<Rightarrow> event list \<times> (error + mapping)" where
  "confirm_or_learn mp action_key text_command =
     (case (if truthy action_key then action_key else None) of
        None \<Rightarrow> learn_unknown mp text_command
      | Some key \<Rightarrow>
          (case (if confirm_callback mp key = Some True
                 then map_action_via_registry (registry mp) key else None) of
             Some mapping \<Rightarrow>
               ([Confirm key], Inr (enrich_mapping_with_args (re_search mp) text_command mapping))
           | None \<Rightarrow>
               (case learn_unknown mp text_command of
                  (evs, res) \<Rightarrow> (Confirm key # evs, res))))"

text \<open>\<^verbatim>\<open>resolve_command\<close> from \<^verbatim>\<open>db_like_mapping = ...\<close>: what runs when neither the
  exact lookup nor the automatic acceptance returned.\<close>

definition reuse_or_confirm ::
  "AdaptiveMapper \<Rightarrow> string option \<Rightarrow> string \<Rightarrow> event list \<times> (error + mapping)" where
  "reuse_or_confirm mp action_key text_command =
     (case match_existing_db_command mp text_command of
        Some db_like_mapping \<Rightarrow> ([], Inr db_like_mapping)
      | None \<Rightarrow> confirm_or_learn mp action_key text_command)"

definition resolve_command :: "AdaptiveMapper \<Rightarrow> string \<Rightarrow> event list \<times> (error + mapping)" where
  "resolve_command mp text_command =
     (case get_db_mapping mp text_command of
        Some mapping \<Rightarrow> ([], Inr (enrich_mapping_with_args (re_search mp) text_command mapping))
      | None \<Rightarrow>
          (case recognize_or_match mp text_command of
             (action_key, score) \<Rightarrow>
               (case (if truthy action_key \<and> 0.8 \<le> score
                      then map_action_via_registry (registry mp)
                             (case action_key of None \<Rightarrow> [] | Some key \<Rightarrow> key)
                      else None) of
                  Some mapping \<Rightarrow>
                    ([], Inr (enrich_mapping_with_args (re_search mp) text_command mapping))
                | None \<Rightarrow> reuse_or_confirm mp action_key text_command)))"

subsection \<open>core/command\_handler.py\<close>

text \<open>A \<^verbatim>\<open>CommandHandler\<close>: \<open>mapper\<close> is \<open>None\<close> and \<open>undo_redo\<close> is false when the
  module could not be imported; \<open>permissions\<close> is the gate \<^verbatim>\<open>enforce_permission\<close>, true
  when it returns and false when it raises, \<open>None\<close> when the module is missing.\<close>

record CommandHandler =
  mapper :: "AdaptiveMapper option"
  undo_redo :: bool
  permissions :: "(string \<Rightarrow> string \<Rightarrow> bool) option"
  user_id :: string

definition import_automation_module :: "modules \<Rightarrow> string \<Rightarrow> error + (string \<Rightarrow> callable option)" where
  "import_automation_module mods module_name =
     (case mods (''backend.automation.'' @ module_name) of
        Some attrs \<Rightarrow> Inr attrs
      | None \<Rightarrow>
          (case mods module_name of
             Some attrs \<Rightarrow> Inr attrs
           | None \<Rightarrow> Inl (ImportError (''No module named '' @ quoted module_name))))"

definition error_response :: "string \<Rightarrow> pydict" where
  "error_response msg =
     [(''status'', PStr ''error''), (''message'', PStr msg), (''function_executed'', PNone)]"

definition handler_record_action ::
  "CommandHandler \<Rightarrow> bool \<Rightarrow> world \<Rightarrow> string \<Rightarrow> string \<Rightarrow> string list
     \<Rightarrow> (string \<times> string) list \<Rightarrow> world" where
  "handler_record_action h ok w module_name function_name a k =
     (if \<not> undo_redo h then w
      else record_action ok w (module_name @ ''.'' @ function_name) (Some a) (Some k) False None)"

text \<open>\<^verbatim>\<open>mapping.get(key)\<close> read as a string that is tested with \<^verbatim>\<open>not\<close>: an absent key
  and \<^verbatim>\<open>None\<close> count as the empty string.\<close>

definition get_str :: "string option \<Rightarrow> string" where
  "get_str so = (case so of None \<Rightarrow> [] | Some x \<Rightarrow> x)"

definition execute ::
  "CommandHandler \<Rightarrow> modules \<Rightarrow> bool \<Rightarrow> world \<Rightarrow> string \<Rightarrow> pydict \<times> world" where
  "execute h mods ok w text_command =
     (case (case mapper h of
              None \<Rightarrow> Inl (RuntimeError ''Mapper module not available'')
            | Some mp \<Rightarrow> snd (resolve_command mp text_command)) of
        Inl e \<Rightarrow> (error_response (''Failed to resolve command: '' @ str_of_error e), w)
      | Inr mapping \<Rightarrow>
          (let module_name = get_str (m_module mapping);
               function_name = get_str (m_function mapping);
               a = (case m_args mapping of None \<Rightarrow> [] | Some xs \<Rightarrow> xs);
               k = (case m_kwargs mapping of None \<Rightarrow> [] | Some ys \<Rightarrow> ys)
           in if module_name = [] \<or> function_name = []
              then (error_response (''Mapping must contain '' @ quoted ''module'' @ '' and ''
                                     @ quoted ''function''), w)
              else
                (case import_automation_module mods module_name of
                   Inl e \<Rightarrow> (error_response (str_of_error e), w)
                 | Inr attrs \<Rightarrow>
                     (case attrs function_name of
                        None \<Rightarrow>
                          (error_response (''Function '' @ quoted function_name
                              @ '' not found in module '' @ quoted module_name), w)
                      | Some target_function \<Rightarrow>
                          if (case permissions h of
                                None \<Rightarrow> False
                              | Some enforce_permission \<Rightarrow>
                                  \<not> enforce_permission (user_id h)
                                      (module_name @ ''.'' @ function_name))
                          then (error_response ''Permission denied'', w)
                          else
                            (let w1 = w\<lparr>invoked := invoked w
                                         @ [(module_name @ ''.'' @ function_name, a, k)]\<rparr>
                             in (case target_function a k of
                                   Inl msg \<Rightarrow> (error_response msg, w1)
                                 | Inr result \<Rightarrow>
                                     ([(''status'', PStr ''success''),
                                       (''message'', PStr ''Command executed successfully''),
                                       (''function_executed'',
                                          PStr (module_name @ ''.'' @ function_name)),
                                       (''result'', result)],
                                      handler_record_action h ok w1 module_name
                                        function_name a k)))))))"

definition undo :: "CommandHandler \<Rightarrow> modules \<Rightarrow> bool \<Rightarrow> world \<Rightarrow> pydict \<times> world" where
  "undo h mods ok w =
     (if \<not> undo_redo h then (error_response ''Undo/redo service not available'', w)
      else (case undo_last mods ok w of
              (function_path_result, w') \<Rightarrow>
                ([(''status'', PStr ''success''), (''message'', PStr ''Undo executed''),
                  (''function_executed'', PDict function_path_result)], w')))"

definition redo :: "CommandHandler \<Rightarrow> modules \<Rightarrow> bool \<Rightarrow> world \<Rightarrow> pydict \<times> world" where
  "redo h mods ok w =
     (if \<not> undo_redo h then (error_response ''Undo/redo service not available'', w)
      else (case redo_last mods ok w of
              (function_path_result, w') \<Rightarrow>
                ([(''status'', PStr ''success''), (''message'', PStr ''Redo executed''),
                  (''function_executed'', PDict function_path_result)], w')))"

subsection \<open>Concrete inputs\<close>

text \<open>An environment in which \<^verbatim>\<open>apps\<close> is importable and has one function,
  \<^verbatim>\<open>open_app\<close>, that returns \<^verbatim>\<open>None\<close>.\<close>

definition example_modules :: modules where
  "example_modules =
     (\<lambda>m. if m = ''apps''
          then Some (\<lambda>f. if f = ''open_app'' then Some (\<lambda>a k. Inr PNone) else None)
          else None)"


text \<open>A stand-in for \<^verbatim>\<open>fuzz.token_set_ratio\<close>: 100 when both texts have tokens and
  the tokens of one are among the tokens of the other, which is the value of the library
  there. The 0 of the other case is a placeholder; the examples do not consult it.\<close>

definition example_ratio :: "string \<Rightarrow> string \<Rightarrow> nat" where
  "example_ratio s t =
     (if split (lower s) \<noteq> [] \<and> split (lower t) \<noteq> []
         \<and> (list_all (\<lambda>x. x \<in> set (split (lower t))) (split (lower s))
              \<or> list_all (\<lambda>x. x \<in> set (split (lower s))) (split (lower t)))
      then 100 else 0)"

definition example_registry :: "string \<Rightarrow> registry_entry option" where
  "example_registry key =
     (if key = ''apps:open_app'' then Some (Module_path ''backend.automation.apps'' ''open_app'')
      else None)"

text \<open>A store that has learned \<^verbatim>\<open>"open chrome"\<close> as \<^verbatim>\<open>apps:open_app\<close>.\<close>

definition example_db :: database where
  "example_db = upsert_mapping init_db ''open chrome'' ''apps'' ''open_app'' None None"

text \<open>A mapper over that store, with the synonym entry of the specification's example,
  a user who declines every confirmation and no intent recognizer.\<close>

definition example_mapper :: AdaptiveMapper where
  "example_mapper =
     \<lparr>intent_recognizer = None,
      confirm_callback = (\<lambda>key. Some False),
      commands_config_path = ''config/commands.json'',
      registry = Some example_registry,
      db = Some example_db,
      learner_ctor = True,
      commands_index = [(''apps:open_app'', [''open chrome'', ''launch chrome''])],
      token_set_ratio = example_ratio,
      re_search = (\<lambda>text. None),
      handle_unknown = (\<lambda>text d. Inl (AttributeError ''_validate_mapping''))\<rparr>"




text \<open>A handler over that mapper whose permission gate lets only \<^verbatim>\<open>admin\<close> pass.\<close>

definition example_handler :: "string \<Rightarrow> CommandHandler" where
  "example_handler user =
     \<lparr>mapper = Some example_mapper, undo_redo = True,
      permissions = Some (\<lambda>u c. u = ''admin''), user_id = user\<rparr>"

section \<open>Properties\<close>

subsection \<open>Splitting at a separator\<close>

lemma takeWhile_until:
  "c \<notin> set xs \<Longrightarrow> takeWhile (\<lambda>x. x \<noteq> c) (xs @ c # ys) = xs"
  by (induction xs) auto

lemma dropWhile_until:
  "c \<notin> set xs \<Longrightarrow> dropWhile (\<lambda>x. x \<noteq> c) (xs @ c # ys) = c # ys"
  by (induction xs) auto

subsection \<open>History engine\<close>

lemma record_action_stacks:
  "executed_stack (record_action ok w fpath a k r u) =
     executed_stack w @ [\<lparr>function_path = fpath,
                          args = (case a of None \<Rightarrow> [] | Some xs \<Rightarrow> xs),
                          kwargs = (case k of None \<Rightarrow> [] | Some ys \<Rightarrow> ys),
                          reversible = r, undo_function_path = u\<rparr>]
   \<and> undone_stack (record_action ok w fpath a k r u) = []"
  by (simp add: record_action_def log_history_def Let_def)

lemma record_action_invoked:
  "invoked (record_action ok w fpath a k r u) = invoked w"
  by (simp add: record_action_def log_history_def Let_def)

lemma undo_last_empty:
  "executed_stack w = [] \<Longrightarrow>
   undo_last mods ok w = ([(''status'', PStr ''error''), (''message'', PStr ''Nothing to undo'')], w)"
  by (simp add: undo_last_def)

lemma redo_last_empty:
  "undone_stack w = [] \<Longrightarrow>
   redo_last mods ok w = ([(''status'', PStr ''error''), (''message'', PStr ''Nothing to redo'')], w)"
  by (simp add: redo_last_def)

lemma undo_last_stacks:
  assumes "executed_stack w \<noteq> []"
  shows "executed_stack (snd (undo_last mods ok w)) = butlast (executed_stack w)"
    and "undone_stack (snd (undo_last mods ok w)) = undone_stack w @ [last (executed_stack w)]"
  using assms
  by (simp_all add: undo_last_def log_history_def Let_def split: option.split sum.split)



text \<open>
  Claim C3. Every \<^verbatim>\<open>record_action\<close> appends the new record to the executed stack and
  leaves the undone stack empty. Hence after record(A), record(B), undo\_last(),
  record(C) the executed stack holds A and C on top of what was there, the undone stack
  is empty, and the next redo\_last() answers "Nothing to redo" and changes nothing.
\<close>

theorem record_action_invalidates_redo:
  fixes w :: world and mods :: modules
    and okA okB okU okC okR rA rB rC :: bool
    and pA pB pC :: string
    and aA aB aC :: "string list option"
    and kA kB kC :: "(string \<times> string) list option"
    and uA uB uC :: "string option"
  defines "wA \<equiv> record_action okA w pA aA kA rA uA"
  defines "wB \<equiv> record_action okB wA pB aB kB rB uB"
  defines "wU \<equiv> snd (undo_last mods okU wB)"
  defines "wC \<equiv> record_action okC wU pC aC kC rC uC"
  shows "executed_stack wA = executed_stack w @
            [\<lparr>function_path = pA, args = (case aA of None \<Rightarrow> [] | Some xs \<Rightarrow> xs),
              kwargs = (case kA of None \<Rightarrow> [] | Some ys \<Rightarrow> ys),
              reversible = rA, undo_function_path = uA\<rparr>]
       \<and> undone_stack wA = []
       \<and> executed_stack wC = executed_stack w @
            [\<lparr>function_path = pA, args = (case aA of None \<Rightarrow> [] | Some xs \<Rightarrow> xs),
              kwargs = (case kA of None \<Rightarrow> [] | Some ys \<Rightarrow> ys),
              reversible = rA, undo_function_path = uA\<rparr>,
             \<lparr>function_path = pC, args = (case aC of None \<Rightarrow> [] | Some xs \<Rightarrow> xs),
              kwargs = (case kC of None \<Rightarrow> [] | Some ys \<Rightarrow> ys),
              reversible = rC, undo_function_path = uC\<rparr>]
       \<and> undone_stack wC = []
       \<and> redo_last mods okR wC =
            ([(''status'', PStr ''error''), (''message'', PStr ''Nothing to redo'')], wC)"
proof -
  have ne: "executed_stack wB \<noteq> []"
    by (simp add: wB_def record_action_stacks)
  have "executed_stack wU = executed_stack wA"
    using undo_last_stacks(1) [OF ne, of mods okU]
    by (simp add: wU_def wB_def record_action_stacks)
  then have "executed_stack wC = executed_stack wA @
      [\<lparr>function_path = pC, args = (case aC of None \<Rightarrow> [] | Some xs \<Rightarrow> xs),
        kwargs = (case kC of None \<Rightarrow> [] | Some ys \<Rightarrow> ys),
        reversible = rC, undo_function_path = uC\<rparr>]"
    by (simp add: wC_def record_action_stacks)
  moreover have "undone_stack wC = []"
    by (simp add: wC_def record_action_stacks)
  ultimately show ?thesis
    by (simp add: wA_def record_action_stacks redo_last_empty)
qed

theorem record_action_invalidates_redo_witness:
  "redo_last (\<lambda>m. None) True
     (record_action True
        (snd (undo_last (\<lambda>m. None) True
           (record_action True
              (record_action True init_world ''apps.open_app'' (Some [''chrome'']) None False None)
              ''browser.open_url'' (Some [''https://example.com'']) None False None)))
        ''youtube.play_video'' (Some [''lofi'']) None False None)
   = ([(''status'', PStr ''error''), (''message'', PStr ''Nothing to redo'')],
      \<lparr>executed_stack =
         [\<lparr>function_path = ''apps.open_app'', args = [''chrome''], kwargs = [],
            reversible = False, undo_function_path = None\<rparr>,
          \<lparr>function_path = ''youtube.play_video'', args = [''lofi''], kwargs = [],
            reversible = False, undo_function_path = None\<rparr>],
       undone_stack = [],
       history = [(''apps.open_app'', ''EXECUTE''), (''browser.open_url'', ''EXECUTE''),
                  (''browser.open_url'', ''UNDO''), (''youtube.play_video'', ''EXECUTE'')],
       invoked = []\<rparr>)"
  using record_action_invalidates_redo
    [where w = init_world and mods = "\<lambda>m. None"
       and okA = True and okB = True and okU = True and okC = True and okR = True
       and pA = "''apps.open_app''" and aA = "Some [''chrome'']" and kA = None
       and rA = False and uA = None
       and pB = "''browser.open_url''" and aB = "Some [''https://example.com'']" and kB = None
       and rB = False and uB = None
       and pC = "''youtube.play_video''" and aC = "Some [''lofi'']" and kC = None
       and rC = False and uC = None]
  by (simp add: record_action_def undo_last_def log_history_def init_world_def)








subsection \<open>Mapping store\<close>

lemma find_filter_neq:
  "find (\<lambda>(i, c, a). c = t) (filter (\<lambda>(i, c, a). c \<noteq> t) rows) = None"
  by (induction rows) auto

lemma find_append_None:
  "find P xs = None \<Longrightarrow> find P (xs @ ys) = find P ys"
  by (induction xs) (auto split: if_splits)

lemma get_mapping_add_mapping:
  "get_mapping (add_mapping d t a) t =
     Some (if CHR '':'' \<in> set a
           then \<lparr>m_action_name = Some a,
                 m_module = Some (takeWhile (\<lambda>x. x \<noteq> CHR '':'') a),
                 m_function = Some (drop 1 (dropWhile (\<lambda>x. x \<noteq> CHR '':'') a)),
                 m_args = Some [], m_kwargs = Some []\<rparr>
           else \<lparr>m_action_name = Some a, m_module = None, m_function = None,
                 m_args = None, m_kwargs = None\<rparr>)"
  by (simp add: get_mapping_def add_mapping_def find_append_None find_filter_neq)

text \<open>
  Claim C7, as amended. The store keeps the command text and the action name
  \<open>module:function\<close> only. After an upsert with a non-empty module name that has no colon
  and a non-empty function name, a get for the same text returns a mapping with that
  module and that function; its \<^verbatim>\<open>args\<close> and \<^verbatim>\<open>kwargs\<close> are the empty list and the
  empty dict whatever templates the upsert was given.
\<close>

theorem upsert_then_get:
  assumes "module_name \<noteq> []" and "function_name \<noteq> []" and "CHR '':'' \<notin> set module_name"
  shows "get_mapping (upsert_mapping d command module_name function_name a k) command =
           Some \<lparr>m_action_name = Some (module_name @ '':'' @ function_name),
                 m_module = Some module_name, m_function = Some function_name,
                 m_args = Some [], m_kwargs = Some []\<rparr>"
  using assms
  by (simp add: upsert_mapping_def get_mapping_add_mapping takeWhile_until dropWhile_until)

theorem upsert_then_get_witness:
  "get_mapping (upsert_mapping init_db ''open chrome'' ''apps'' ''open_app'' (Some [''chrome'']) (Some [(''new_window'', ''yes'')])) ''open chrome'' =
           Some \<lparr>m_action_name = Some ''apps:open_app'',
                 m_module = Some ''apps'', m_function = Some ''open_app'',
                 m_args = Some [], m_kwargs = Some []\<rparr>"
  using upsert_then_get [of "''apps''" "''open_app''" init_db "''open chrome''" "Some [''chrome'']" "Some [(''new_window'', ''yes'')]"]
  by simp

text \<open>
  Claim C7 as stated fails: an upsert with \<^verbatim>\<open>args = ["chrome"]\<close> and a non-empty
  \<^verbatim>\<open>kwargs\<close> is read back with empty \<^verbatim>\<open>args\<close> and \<^verbatim>\<open>kwargs\<close>.
\<close>

theorem upsert_then_get_args_counterexample:
  "map_option m_args (get_mapping (upsert_mapping init_db ''open chrome'' ''apps'' ''open_app''
       (Some [''chrome'']) (Some [(''new_window'', ''yes'')])) ''open chrome'') = Some (Some [])
   \<and> map_option m_args (get_mapping (upsert_mapping init_db ''open chrome'' ''apps'' ''open_app''
       (Some [''chrome'']) (Some [(''new_window'', ''yes'')])) ''open chrome'') \<noteq> Some (Some [''chrome''])
   \<and> map_option m_kwargs (get_mapping (upsert_mapping init_db ''open chrome'' ''apps'' ''open_app''
       (Some [''chrome'']) (Some [(''new_window'', ''yes'')])) ''open chrome'')
         \<noteq> Some (Some [(''new_window'', ''yes'')])"
  by (simp add: upsert_mapping_def get_mapping_add_mapping)

lemma command_texts_add_mapping:
  "distinct (command_texts d) \<Longrightarrow> distinct (command_texts (add_mapping d t a))"
  by (auto simp add: command_texts_def add_mapping_def distinct_map_filter filter_map comp_def case_prod_unfold)

lemma command_texts_clear:
  "distinct (command_texts d) \<Longrightarrow> distinct (command_texts (clear_command_mapping d c))"
  by (auto simp add: command_texts_def clear_command_mapping_def distinct_map_filter)

lemma apply_store_op_distinct:
  "distinct (command_texts d) \<Longrightarrow> distinct (command_texts (apply_store_op x d))"
  by (cases x) (simp_all add: command_texts_add_mapping command_texts_clear upsert_mapping_def)

lemma fold_store_ops_distinct:
  "distinct (command_texts d) \<Longrightarrow> distinct (command_texts (fold apply_store_op ops d))"
  by (induction ops arbitrary: d) (simp_all add: apply_store_op_distinct)

lemma rows_for_add_mapping:
  "rows_for (add_mapping d t a) t = [(mappings_seq d + 1, t, a)]"
  by (auto simp add: rows_for_def add_mapping_def filter_empty_conv)


lemma mappings_seq_add_mapping:
  "mappings_seq (add_mapping d t a) = mappings_seq d + 1"
  by (simp add: add_mapping_def)

lemma distinct_filter_eq_le1:
  "distinct (map f xs) \<Longrightarrow> length (filter (\<lambda>x. f x = t) xs) \<le> 1"
proof (induction xs)
  case Nil
  then show ?case by simp
next
  case (Cons a xs)
  show ?case
  proof (cases "f a = t")
    case True
    from Cons.prems have "f a \<notin> f ` set xs" by simp
    then have "\<forall>x\<in>set xs. f x \<noteq> f a" by (metis imageI)
    with True have "filter (\<lambda>x. f x = t) xs = []"
      by (simp add: filter_empty_conv)
    with True show ?thesis by simp
  next
    case False
    with Cons show ?thesis by simp
  qed
qed

lemma rows_for_le1:
  "distinct (command_texts d) \<Longrightarrow> length (rows_for d t) \<le> 1"
  using distinct_filter_eq_le1 [of "\<lambda>(i, c, a). c" "mappings d" t]
  by (simp add: command_texts_def rows_for_def case_prod_unfold)

text \<open>
  Claim C8. No run of the writers of the mappings table, started on the empty table (or
  on any table without duplicate command texts), yields two rows with the same command
  text. Adding or upserting the same text twice leaves exactly one row for it, and that
  row carries the action name of the second call.
\<close>

theorem one_row_per_command_text:
  "distinct (command_texts (fold apply_store_op ops init_db))
   \<and> length (rows_for (fold apply_store_op ops init_db) t) \<le> 1
   \<and> (distinct (command_texts d) \<longrightarrow> distinct (command_texts (fold apply_store_op ops d)))
   \<and> rows_for (add_mapping (add_mapping d t x) t y) t = [(mappings_seq d + 2, t, y)]
   \<and> (m2 \<noteq> [] \<and> f2 \<noteq> [] \<longrightarrow>
        rows_for (upsert_mapping (upsert_mapping d t m1 f1 a1 k1) t m2 f2 a2 k2) t
          = [(mappings_seq d + 2, t, m2 @ '':'' @ f2)])"
proof -
  have init: "distinct (command_texts init_db)"
    by (simp add: command_texts_def init_db_def)
  have reach: "distinct (command_texts (fold apply_store_op ops init_db))"
    using init by (rule fold_store_ops_distinct)
  have twice: "rows_for (add_mapping (add_mapping d t x) t y) t = [(mappings_seq d + 2, t, y)]" for x y
    by (simp add: rows_for_add_mapping mappings_seq_add_mapping)
  show ?thesis
    using reach rows_for_le1 [OF reach, of t] twice
    by (simp add: fold_store_ops_distinct upsert_mapping_def)
qed

theorem one_row_per_command_text_witness:
  "rows_for (upsert_mapping (upsert_mapping init_db ''open chrome'' ''apps'' ''open_app'' None None)
               ''open chrome'' ''browser'' ''open_url'' None None) ''open chrome''
     = [(2, ''open chrome'', ''browser:open_url'')]
   \<and> distinct (command_texts (fold apply_store_op
         [Upsert_mapping ''open chrome'' ''apps'' ''open_app'' None None,
          Upsert_mapping ''open chrome'' ''browser'' ''open_url'' None None] init_db))"
  using one_row_per_command_text
    [where ops = "[Upsert_mapping ''open chrome'' ''apps'' ''open_app'' None None,
                   Upsert_mapping ''open chrome'' ''browser'' ''open_url'' None None]"
       and d = init_db and t = "''open chrome''" and ?m2.0 = "''browser''" and ?f2.0 = "''open_url''"
       and ?m1.0 = "''apps''" and ?f1.0 = "''open_app''" and ?a1.0 = None and ?k1.0 = None
       and ?a2.0 = None and ?k2.0 = None]
  by (simp add: init_db_def)

subsection \<open>Exact lookup and enrichment\<close>

text \<open>
  Claim C1, as amended. When the store holds a mapping for exactly the input text,
  \<^verbatim>\<open>resolve_command\<close> asks nothing of the user or the Learner and returns that mapping
  after argument enrichment, whatever the synonym index, the recognizer, the ratio, the
  registry and the confirmation callback are. Module and function are the stored ones
  with surrounding whitespace stripped and \<^verbatim>\<open>kwargs\<close> are the stored ones; stored
  \<^verbatim>\<open>args\<close> are kept when not empty, and otherwise the extraction rule of the action
  supplies them from the text (the mapping comes back as stored only when that rule
  raises).
\<close>

theorem exact_mapping_takes_precedence:
  assumes "get_db_mapping mp text = Some m"
  shows "resolve_command mp text = ([], Inr (enrich_mapping_with_args (re_search mp) text m))
       \<and> resolve_command (mp\<lparr>intent_recognizer := ir, commands_index := ci,
                              token_set_ratio := tsr, registry := rg,
                              confirm_callback := cc\<rparr>) text
           = resolve_command mp text
       \<and> (\<forall>x xs. m_args m = Some (x # xs) \<longrightarrow>
             snd (resolve_command mp text) =
               Inr \<lparr>m_action_name = None, m_module = Some (strip (get_str (m_module m))),
                     m_function = Some (strip (get_str (m_function m))),
                     m_args = Some (x # xs),
                     m_kwargs = Some (case m_kwargs m of None \<Rightarrow> [] | Some ys \<Rightarrow> ys)\<rparr>)
       \<and> (m_args m = None \<or> m_args m = Some [] \<longrightarrow>
             snd (resolve_command mp text) =
               Inr (case extract_args (re_search mp) (strip (get_str (m_module m)))
                           (strip (get_str (m_function m))) text of
                      None \<Rightarrow> m
                    | Some a \<Rightarrow>
                        \<lparr>m_action_name = None, m_module = Some (strip (get_str (m_module m))),
                         m_function = Some (strip (get_str (m_function m))),
                         m_args = Some a,
                         m_kwargs = Some (case m_kwargs m of None \<Rightarrow> [] | Some ys \<Rightarrow> ys)\<rparr>))"
proof -
  have gen: "resolve_command mp' text = ([], Inr (enrich_mapping_with_args (re_search mp') text m))"
    if "get_db_mapping mp' text = Some m" for mp'
    using that by (simp add: resolve_command_def)
  have a: "resolve_command mp text = ([], Inr (enrich_mapping_with_args (re_search mp) text m))"
    using assms by (rule gen)
  have "get_db_mapping (mp\<lparr>intent_recognizer := ir, commands_index := ci,
                              token_set_ratio := tsr, registry := rg,
                              confirm_callback := cc\<rparr>) text = Some m"
    using assms by (simp add: get_db_mapping_def)
  then have b: "resolve_command (mp\<lparr>intent_recognizer := ir, commands_index := ci,
                              token_set_ratio := tsr, registry := rg,
                              confirm_callback := cc\<rparr>) text
           = resolve_command mp text"
    using gen [of "mp\<lparr>intent_recognizer := ir, commands_index := ci,
                              token_set_ratio := tsr, registry := rg,
                              confirm_callback := cc\<rparr>"]
    by (simp add: a)
  show ?thesis
    unfolding b unfolding a
    by (auto simp add: enrich_mapping_with_args_def get_str_def Let_def split: option.split)
qed

theorem exact_mapping_takes_precedence_witness:
  "resolve_command example_mapper ''open chrome'' =
     ([], Inr \<lparr>m_action_name = None, m_module = Some ''apps'', m_function = Some ''open_app'',
               m_args = Some [''chrome''], m_kwargs = Some []\<rparr>)"
proof -
  have g: "get_db_mapping example_mapper ''open chrome'' =
             Some \<lparr>m_action_name = Some ''apps:open_app'', m_module = Some ''apps'',
                   m_function = Some ''open_app'', m_args = Some [], m_kwargs = Some []\<rparr>"
    by (simp add: get_db_mapping_def example_mapper_def example_db_def upsert_mapping_def
        get_mapping_add_mapping)
  have e: "enrich_mapping_with_args (\<lambda>text. None) ''open chrome''
             \<lparr>m_action_name = Some ''apps:open_app'', m_module = Some ''apps'',
              m_function = Some ''open_app'', m_args = Some [], m_kwargs = Some []\<rparr>
           = \<lparr>m_action_name = None, m_module = Some ''apps'', m_function = Some ''open_app'',
               m_args = Some [''chrome''], m_kwargs = Some []\<rparr>"
    by code_simp
  show ?thesis
    using exact_mapping_takes_precedence [OF g] e
    by (simp add: example_mapper_def)
qed

text \<open>
  Claim C1 as stated fails: the mapping stored for \<^verbatim>\<open>"open chrome"\<close> has empty
  \<^verbatim>\<open>args\<close>, the mapping returned for that text has \<^verbatim>\<open>args = ["chrome"]\<close>.
\<close>

theorem exact_mapping_unchanged_counterexample:
  "get_db_mapping example_mapper ''open chrome'' =
     Some \<lparr>m_action_name = Some ''apps:open_app'', m_module = Some ''apps'',
           m_function = Some ''open_app'', m_args = Some [], m_kwargs = Some []\<rparr>
   \<and> snd (resolve_command example_mapper ''open chrome'') =
     Inr \<lparr>m_action_name = None, m_module = Some ''apps'', m_function = Some ''open_app'',
          m_args = Some [''chrome''], m_kwargs = Some []\<rparr>
   \<and> m_args \<lparr>m_action_name = None, m_module = Some ''apps'', m_function = Some ''open_app'',
          m_args = Some [''chrome''], m_kwargs = Some []\<rparr>
       \<noteq> m_args \<lparr>m_action_name = Some ''apps:open_app'', m_module = Some ''apps'',
           m_function = Some ''open_app'', m_args = Some [], m_kwargs = Some []\<rparr>"
  by code_simp


subsection \<open>Resolver\<close>

text \<open>On the fuzzy path the confidence is the best integer ratio divided by 100. The
  comparison of that quotient with 0.8 is taken over the reals; it agrees with the
  comparison of the Python floats, since \<^verbatim>\<open>80 / 100.0\<close> is the float \<^verbatim>\<open>0.8\<close> and
  division by 100 is monotone.\<close>

lemma recognize_or_match_fuzzy:
  assumes "intent_recognizer mp = None"
    and "best_action (token_set_ratio mp) text (commands_index mp) (None, 0) = (Some key, n)"
    and "key \<noteq> []"
  shows "recognize_or_match mp text = (Some key, real n / 100)"
  using assms by (simp add: recognize_or_match_def truthy_def)

text \<open>The constructor of the Learner raises on every input, so the resolver never gets
  to \<^verbatim>\<open>handle_unknown\<close>, whatever that method would do.\<close>

lemma Learner_init_fails: "\<exists>e. Learner_init p = Inl e"
  by (simp add: Learner_init_def Learner_attributes_def)

lemma learn_unknown_fails:
  "learn_unknown mp text =
     (if learner_ctor mp then ([Learner_ctor], Inl (RuntimeError ''Adaptive learner unavailable''))
      else ([], Inl (RuntimeError ''Learner is not available to handle unknown commands'')))"
  using Learner_init_fails [of "Some (commands_config_path mp)"]
  by (auto simp add: learn_unknown_def)

lemma resolve_command_never_learns:
  "Handle_unknown t \<notin> set (fst (resolve_command mp text))"
  by (simp add: resolve_command_def reuse_or_confirm_def confirm_or_learn_def learn_unknown_fails
      split: option.split prod.split)






text \<open>
  Claim C6, at the failing input: an unknown text, an empty store and no synonyms. The
  Learner is never built, \<^verbatim>\<open>handle_unknown\<close> is not called, no mapping is stored, and
  \<^verbatim>\<open>resolve_command\<close> raises "Adaptive learner unavailable".
\<close>

theorem learner_is_never_constructed:
  "Learner_init (Some (commands_config_path example_mapper)) = Inl (AttributeError ''_import_database'')
   \<and> get_db_mapping (example_mapper\<lparr>db := Some init_db, commands_index := []\<rparr>) ''frobnicate'' = None
   \<and> resolve_command (example_mapper\<lparr>db := Some init_db, commands_index := []\<rparr>) ''frobnicate'' =
       ([Learner_ctor], Inl (RuntimeError ''Adaptive learner unavailable''))"
  by (simp add: resolve_command_def recognize_or_match_def reuse_or_confirm_def
      match_existing_db_command_def list_db_commands_def list_commands_def list_mappings_def
      confirm_or_learn_def learn_unknown_fails get_db_mapping_def get_mapping_def
      Learner_init_def Learner_attributes_def truthy_def example_mapper_def init_db_def)

text \<open>A mapping read from the store never carries arguments.\<close>

lemma get_mapping_args_empty:
  "get_mapping d t = Some m \<Longrightarrow> m_args m = None \<or> m_args m = Some []"
  by (auto simp add: get_mapping_def split: option.splits if_splits)

text \<open>
  Claim C9, at the failing input: the store knows \<^verbatim>\<open>"open chrome"\<close>, no synonym is
  configured, and the input is \<^verbatim>\<open>"open chrome now"\<close>, whose ratio to the stored text is
  100. The stored mapping is returned as the store gives it, with empty \<^verbatim>\<open>args\<close>;
  the enrichment that every other returning path applies would have given
  \<^verbatim>\<open>args = ["chrome now"]\<close>.
\<close>

theorem fuzzy_reuse_skips_enrichment:
  "get_db_mapping (example_mapper\<lparr>commands_index := []\<rparr>) ''open chrome now'' = None
   \<and> recognize_or_match (example_mapper\<lparr>commands_index := []\<rparr>) ''open chrome now'' = (None, 0)
   \<and> list_db_commands (example_mapper\<lparr>commands_index := []\<rparr>) = [''open chrome'']
   \<and> token_set_ratio (example_mapper\<lparr>commands_index := []\<rparr>) ''open chrome now'' ''open chrome'' = 100
   \<and> resolve_command (example_mapper\<lparr>commands_index := []\<rparr>) ''open chrome now'' =
       ([], Inr \<lparr>m_action_name = Some ''apps:open_app'', m_module = Some ''apps'',
                 m_function = Some ''open_app'', m_args = Some [], m_kwargs = Some []\<rparr>)
   \<and> enrich_mapping_with_args (re_search example_mapper) ''open chrome now''
         \<lparr>m_action_name = Some ''apps:open_app'', m_module = Some ''apps'',
          m_function = Some ''open_app'', m_args = Some [], m_kwargs = Some []\<rparr> =
       \<lparr>m_action_name = None, m_module = Some ''apps'', m_function = Some ''open_app'',
        m_args = Some [''chrome now''], m_kwargs = Some []\<rparr>"
  by code_simp

subsection \<open>Command handler\<close>

text \<open>
  Claim C10. With the undo/redo module available, \<^verbatim>\<open>CommandHandler.undo()\<close> and
  \<^verbatim>\<open>CommandHandler.redo()\<close> answer with status "success" in every state; the dict that
  \<^verbatim>\<open>undo_last()\<close> or \<^verbatim>\<open>redo_last()\<close> returned, its own error status included, is the
  value of \<^verbatim>\<open>function_executed\<close>. On an empty stack that inner dict is the "Nothing
  to undo" or "Nothing to redo" error.
\<close>

theorem handler_undo_redo_report_success:
  assumes "undo_redo h"
  shows "undo h mods ok w =
           ([(''status'', PStr ''success''), (''message'', PStr ''Undo executed''),
             (''function_executed'', PDict (fst (undo_last mods ok w)))],
            snd (undo_last mods ok w))
       \<and> redo h mods ok w =
           ([(''status'', PStr ''success''), (''message'', PStr ''Redo executed''),
             (''function_executed'', PDict (fst (redo_last mods ok w)))],
            snd (redo_last mods ok w))
       \<and> map_of (fst (undo h mods ok w)) ''status'' = Some (PStr ''success'')
       \<and> map_of (fst (redo h mods ok w)) ''status'' = Some (PStr ''success'')
       \<and> (executed_stack w = [] \<longrightarrow>
            undo h mods ok w =
              ([(''status'', PStr ''success''), (''message'', PStr ''Undo executed''),
                (''function_executed'',
                   PDict [(''status'', PStr ''error''), (''message'', PStr ''Nothing to undo'')])],
               w))
       \<and> (undone_stack w = [] \<longrightarrow>
            redo h mods ok w =
              ([(''status'', PStr ''success''), (''message'', PStr ''Redo executed''),
                (''function_executed'',
                   PDict [(''status'', PStr ''error''), (''message'', PStr ''Nothing to redo'')])],
               w))"
  using assms
  by (simp add: undo_def redo_def undo_last_empty redo_last_empty split: prod.split)

theorem handler_undo_redo_report_success_witness:
  "undo \<lparr>mapper = None, undo_redo = True, permissions = None, user_id = ''guest''\<rparr>
        example_modules True init_world =
     ([(''status'', PStr ''success''), (''message'', PStr ''Undo executed''),
       (''function_executed'',
          PDict [(''status'', PStr ''error''), (''message'', PStr ''Nothing to undo'')])],
      init_world)
   \<and> redo \<lparr>mapper = None, undo_redo = True, permissions = None, user_id = ''guest''\<rparr>
        example_modules True init_world =
     ([(''status'', PStr ''success''), (''message'', PStr ''Redo executed''),
       (''function_executed'',
          PDict [(''status'', PStr ''error''), (''message'', PStr ''Nothing to redo'')])],
      init_world)"
proof -
  have avail: "undo_redo \<lparr>mapper = None, undo_redo = True, permissions = None, user_id = ''guest''\<rparr>"
    by simp
  have e1: "executed_stack init_world = []" and e2: "undone_stack init_world = []"
    by (simp_all add: init_world_def)
  from handler_undo_redo_report_success [OF avail, of example_modules True init_world] e1 e2
  show ?thesis by blast
qed

lemma record_action_history:
  "history (record_action ok w fpath a k r u) =
     (if ok then history w @ [(fpath, ''EXECUTE'')] else history w)"
  by (simp add: record_action_def log_history_def Let_def)

text \<open>\<^verbatim>\<open>execute\<close> once the mapping is resolved and the target function found: the
  gate, then the call, then the record.\<close>

lemma execute_resolved:
  assumes "mapper h = Some mp" and "snd (resolve_command mp cmd) = Inr mapping"
    and "get_str (m_module mapping) \<noteq> []" and "get_str (m_function mapping) \<noteq> []"
    and "import_automation_module mods (get_str (m_module mapping)) = Inr attrs"
    and "attrs (get_str (m_function mapping)) = Some target"
  shows "execute h mods ok w cmd =
     (if (case permissions h of
            None \<Rightarrow> False
          | Some gate \<Rightarrow>
              \<not> gate (user_id h) (get_str (m_module mapping) @ ''.'' @ get_str (m_function mapping)))
      then (error_response ''Permission denied'', w)
      else (case target (case m_args mapping of None \<Rightarrow> [] | Some xs \<Rightarrow> xs)
                        (case m_kwargs mapping of None \<Rightarrow> [] | Some ys \<Rightarrow> ys) of
              Inl msg \<Rightarrow>
                (error_response msg,
                 w\<lparr>invoked := invoked w @
                      [(get_str (m_module mapping) @ ''.'' @ get_str (m_function mapping),
                        case m_args mapping of None \<Rightarrow> [] | Some xs \<Rightarrow> xs,
                        case m_kwargs mapping of None \<Rightarrow> [] | Some ys \<Rightarrow> ys)]\<rparr>)
            | Inr result \<Rightarrow>
                ([(''status'', PStr ''success''),
                  (''message'', PStr ''Command executed successfully''),
                  (''function_executed'',
                     PStr (get_str (m_module mapping) @ ''.'' @ get_str (m_function mapping))),
                  (''result'', result)],
                 handler_record_action h ok
                   (w\<lparr>invoked := invoked w @
                      [(get_str (m_module mapping) @ ''.'' @ get_str (m_function mapping),
                        case m_args mapping of None \<Rightarrow> [] | Some xs \<Rightarrow> xs,
                        case m_kwargs mapping of None \<Rightarrow> [] | Some ys \<Rightarrow> ys)]\<rparr>)
                   (get_str (m_module mapping)) (get_str (m_function mapping))
                   (case m_args mapping of None \<Rightarrow> [] | Some xs \<Rightarrow> xs)
                   (case m_kwargs mapping of None \<Rightarrow> [] | Some ys \<Rightarrow> ys))))"
  using assms by (simp add: execute_def Let_def split: sum.split)

text \<open>On every other path \<^verbatim>\<open>execute\<close> leaves the world as it was.\<close>

lemma execute_not_resolved:
  assumes "snd (execute h mods ok w cmd) \<noteq> w"
  shows "\<exists>mp mapping attrs target.
           mapper h = Some mp \<and> snd (resolve_command mp cmd) = Inr mapping
         \<and> get_str (m_module mapping) \<noteq> [] \<and> get_str (m_function mapping) \<noteq> []
         \<and> import_automation_module mods (get_str (m_module mapping)) = Inr attrs
         \<and> attrs (get_str (m_function mapping)) = Some target"
proof (cases "mapper h")
  case None
  with assms show ?thesis by (simp add: execute_def)
next
  case (Some mp)
  show ?thesis
  proof (cases "snd (resolve_command mp cmd)")
    case (Inl e)
    with Some assms show ?thesis by (simp add: execute_def)
  next
    case (Inr mapping)
    show ?thesis
    proof (cases "get_str (m_module mapping) = [] \<or> get_str (m_function mapping) = []")
      case True
      with Some Inr assms show ?thesis by (simp add: execute_def Let_def)
    next
      case False
      show ?thesis
      proof (cases "import_automation_module mods (get_str (m_module mapping))")
        case (Inl e)
        with Some Inr False assms show ?thesis by (simp add: execute_def Let_def)
      next
        case imp: (Inr attrs)
        show ?thesis
        proof (cases "attrs (get_str (m_function mapping))")
          case None
          with Some Inr False imp assms show ?thesis by (simp add: execute_def Let_def)
        next
          case tgt: (Some target)
          from Some Inr False imp tgt show ?thesis by blast
        qed
      qed
    qed
  qed
qed


text \<open>
  Claim C5. \<^verbatim>\<open>execute\<close> changes the stacks or the history table (which only
  \<^verbatim>\<open>record_action\<close> does) only if the command resolved, the target function was
  found, the permission gate did not raise and the call of the target returned; the new
  world is then \<^verbatim>\<open>record_action\<close> applied to the world after the call. When the gate
  denies, the answer is "Permission denied" and nothing is called or recorded. When the
  target raises, the answer is an error and the stacks and the history are unchanged.
\<close>

theorem execute_records_only_after_success:
  fixes h :: CommandHandler and mods :: modules and ok :: bool and w :: world
    and cmd :: string
  defines "resp \<equiv> fst (execute h mods ok w cmd)"
  defines "w' \<equiv> snd (execute h mods ok w cmd)"
  shows "(executed_stack w' \<noteq> executed_stack w \<or> undone_stack w' \<noteq> undone_stack w
            \<or> history w' \<noteq> history w \<longrightarrow>
          (\<exists>mp mapping attrs target result.
             mapper h = Some mp
           \<and> snd (resolve_command mp cmd) = Inr mapping
           \<and> import_automation_module mods (get_str (m_module mapping)) = Inr attrs
           \<and> attrs (get_str (m_function mapping)) = Some target
           \<and> (\<forall>gate. permissions h = Some gate \<longrightarrow>
                  gate (user_id h) (get_str (m_module mapping) @ ''.'' @ get_str (m_function mapping)))
           \<and> target (case m_args mapping of None \<Rightarrow> [] | Some xs \<Rightarrow> xs)
                    (case m_kwargs mapping of None \<Rightarrow> [] | Some ys \<Rightarrow> ys) = Inr result
           \<and> undo_redo h
           \<and> w' = record_action ok
                    (w\<lparr>invoked := invoked w @
                         [(get_str (m_module mapping) @ ''.'' @ get_str (m_function mapping),
                           case m_args mapping of None \<Rightarrow> [] | Some xs \<Rightarrow> xs,
                           case m_kwargs mapping of None \<Rightarrow> [] | Some ys \<Rightarrow> ys)]\<rparr>)
                    (get_str (m_module mapping) @ ''.'' @ get_str (m_function mapping))
                    (Some (case m_args mapping of None \<Rightarrow> [] | Some xs \<Rightarrow> xs))
                    (Some (case m_kwargs mapping of None \<Rightarrow> [] | Some ys \<Rightarrow> ys))
                    False None))
       \<and> (\<forall>mp mapping attrs target gate.
             mapper h = Some mp
           \<and> snd (resolve_command mp cmd) = Inr mapping
           \<and> get_str (m_module mapping) \<noteq> [] \<and> get_str (m_function mapping) \<noteq> []
           \<and> import_automation_module mods (get_str (m_module mapping)) = Inr attrs
           \<and> attrs (get_str (m_function mapping)) = Some target
           \<and> permissions h = Some gate
           \<and> \<not> gate (user_id h) (get_str (m_module mapping) @ ''.'' @ get_str (m_function mapping))
           \<longrightarrow> resp = error_response ''Permission denied'' \<and> w' = w)
       \<and> (\<forall>mp mapping attrs target msg.
             mapper h = Some mp
           \<and> snd (resolve_command mp cmd) = Inr mapping
           \<and> get_str (m_module mapping) \<noteq> [] \<and> get_str (m_function mapping) \<noteq> []
           \<and> import_automation_module mods (get_str (m_module mapping)) = Inr attrs
           \<and> attrs (get_str (m_function mapping)) = Some target
           \<and> target (case m_args mapping of None \<Rightarrow> [] | Some xs \<Rightarrow> xs)
                    (case m_kwargs mapping of None \<Rightarrow> [] | Some ys \<Rightarrow> ys) = Inl msg
           \<longrightarrow> executed_stack w' = executed_stack w \<and> undone_stack w' = undone_stack w
               \<and> history w' = history w
               \<and> map_of resp ''status'' = Some (PStr ''error''))"
proof (intro conjI impI allI)
  assume changed: "executed_stack w' \<noteq> executed_stack w \<or> undone_stack w' \<noteq> undone_stack w
            \<or> history w' \<noteq> history w"
  then have "snd (execute h mods ok w cmd) \<noteq> w"
    unfolding w'_def by auto
  from execute_not_resolved [OF this]
  obtain mp mapping attrs target where
    p: "mapper h = Some mp" "snd (resolve_command mp cmd) = Inr mapping"
       "get_str (m_module mapping) \<noteq> []" "get_str (m_function mapping) \<noteq> []"
       "import_automation_module mods (get_str (m_module mapping)) = Inr attrs"
       "attrs (get_str (m_function mapping)) = Some target"
    by blast
  note ex = execute_resolved [OF p, of ok w]
  have granted: "\<forall>gate. permissions h = Some gate \<longrightarrow>
      gate (user_id h) (get_str (m_module mapping) @ ''.'' @ get_str (m_function mapping))"
  proof (rule ccontr)
    assume "\<not> ?thesis"
    then have "w' = w" unfolding w'_def ex by auto
    with changed show False by simp
  qed
  then have not_denied: "\<not> (case permissions h of
            None \<Rightarrow> False
          | Some gate \<Rightarrow>
              \<not> gate (user_id h) (get_str (m_module mapping) @ ''.'' @ get_str (m_function mapping)))"
    by (simp split: option.split)
  obtain result where res: "target (case m_args mapping of None \<Rightarrow> [] | Some xs \<Rightarrow> xs)
                    (case m_kwargs mapping of None \<Rightarrow> [] | Some ys \<Rightarrow> ys) = Inr result"
  proof (cases "target (case m_args mapping of None \<Rightarrow> [] | Some xs \<Rightarrow> xs)
                    (case m_kwargs mapping of None \<Rightarrow> [] | Some ys \<Rightarrow> ys)")
    case (Inl msg)
    then have "executed_stack w' = executed_stack w \<and> undone_stack w' = undone_stack w
                \<and> history w' = history w"
      unfolding w'_def ex using not_denied by simp
    with changed show ?thesis by simp
  next
    case (Inr result)
    then show ?thesis by (rule that)
  qed
  have rec: "w' = handler_record_action h ok
                   (w\<lparr>invoked := invoked w @
                      [(get_str (m_module mapping) @ ''.'' @ get_str (m_function mapping),
                        case m_args mapping of None \<Rightarrow> [] | Some xs \<Rightarrow> xs,
                        case m_kwargs mapping of None \<Rightarrow> [] | Some ys \<Rightarrow> ys)]\<rparr>)
                   (get_str (m_module mapping)) (get_str (m_function mapping))
                   (case m_args mapping of None \<Rightarrow> [] | Some xs \<Rightarrow> xs)
                   (case m_kwargs mapping of None \<Rightarrow> [] | Some ys \<Rightarrow> ys)"
    unfolding w'_def ex using not_denied res by simp
  have avail: "undo_redo h"
  proof (rule ccontr)
    assume "\<not> undo_redo h"
    with rec have "executed_stack w' = executed_stack w \<and> undone_stack w' = undone_stack w
                \<and> history w' = history w"
      by (simp add: handler_record_action_def)
    with changed show False by simp
  qed
  from rec avail have "w' = record_action ok
                    (w\<lparr>invoked := invoked w @
                         [(get_str (m_module mapping) @ ''.'' @ get_str (m_function mapping),
                           case m_args mapping of None \<Rightarrow> [] | Some xs \<Rightarrow> xs,
                           case m_kwargs mapping of None \<Rightarrow> [] | Some ys \<Rightarrow> ys)]\<rparr>)
                    (get_str (m_module mapping) @ ''.'' @ get_str (m_function mapping))
                    (Some (case m_args mapping of None \<Rightarrow> [] | Some xs \<Rightarrow> xs))
                    (Some (case m_kwargs mapping of None \<Rightarrow> [] | Some ys \<Rightarrow> ys))
                    False None"
    by (simp add: handler_record_action_def)
  with p granted res avail
  show "\<exists>mp mapping attrs target result.
             mapper h = Some mp
           \<and> snd (resolve_command mp cmd) = Inr mapping
           \<and> import_automation_module mods (get_str (m_module mapping)) = Inr attrs
           \<and> attrs (get_str (m_function mapping)) = Some target
           \<and> (\<forall>gate. permissions h = Some gate \<longrightarrow>
                  gate (user_id h) (get_str (m_module mapping) @ ''.'' @ get_str (m_function mapping)))
           \<and> target (case m_args mapping of None \<Rightarrow> [] | Some xs \<Rightarrow> xs)
                    (case m_kwargs mapping of None \<Rightarrow> [] | Some ys \<Rightarrow> ys) = Inr result
           \<and> undo_redo h
           \<and> w' = record_action ok
                    (w\<lparr>invoked := invoked w @
                         [(get_str (m_module mapping) @ ''.'' @ get_str (m_function mapping),
                           case m_args mapping of None \<Rightarrow> [] | Some xs \<Rightarrow> xs,
                           case m_kwargs mapping of None \<Rightarrow> [] | Some ys \<Rightarrow> ys)]\<rparr>)
                    (get_str (m_module mapping) @ ''.'' @ get_str (m_function mapping))
                    (Some (case m_args mapping of None \<Rightarrow> [] | Some xs \<Rightarrow> xs))
                    (Some (case m_kwargs mapping of None \<Rightarrow> [] | Some ys \<Rightarrow> ys))
                    False None"
    by blast
next
  fix mp mapping attrs target gate
  assume a: "mapper h = Some mp
           \<and> snd (resolve_command mp cmd) = Inr mapping
           \<and> get_str (m_module mapping) \<noteq> [] \<and> get_str (m_function mapping) \<noteq> []
           \<and> import_automation_module mods (get_str (m_module mapping)) = Inr attrs
           \<and> attrs (get_str (m_function mapping)) = Some target
           \<and> permissions h = Some gate
           \<and> \<not> gate (user_id h) (get_str (m_module mapping) @ ''.'' @ get_str (m_function mapping))"
  then have ex: "execute h mods ok w cmd = (error_response ''Permission denied'', w)"
    using execute_resolved [of h mp cmd mapping mods attrs target ok w] by simp
  show "resp = error_response ''Permission denied''" unfolding resp_def ex by simp
  show "w' = w" unfolding w'_def ex by simp
next
  fix mp mapping attrs target msg
  assume a: "mapper h = Some mp
           \<and> snd (resolve_command mp cmd) = Inr mapping
           \<and> get_str (m_module mapping) \<noteq> [] \<and> get_str (m_function mapping) \<noteq> []
           \<and> import_automation_module mods (get_str (m_module mapping)) = Inr attrs
           \<and> attrs (get_str (m_function mapping)) = Some target
           \<and> target (case m_args mapping of None \<Rightarrow> [] | Some xs \<Rightarrow> xs)
                    (case m_kwargs mapping of None \<Rightarrow> [] | Some ys \<Rightarrow> ys) = Inl msg"
  then have ex: "execute h mods ok w cmd = (error_response ''Permission denied'', w)
      \<or> execute h mods ok w cmd = (error_response msg,
                 w\<lparr>invoked := invoked w @
                      [(get_str (m_module mapping) @ ''.'' @ get_str (m_function mapping),
                        case m_args mapping of None \<Rightarrow> [] | Some xs \<Rightarrow> xs,
                        case m_kwargs mapping of None \<Rightarrow> [] | Some ys \<Rightarrow> ys)]\<rparr>)"
    using execute_resolved [of h mp cmd mapping mods attrs target ok w] by simp
  then show "executed_stack w' = executed_stack w" unfolding w'_def by auto
  from ex show "undone_stack w' = undone_stack w" unfolding w'_def by auto
  from ex show "history w' = history w" unfolding w'_def by auto
  from ex show "map_of resp ''status'' = Some (PStr ''error'')"
    unfolding resp_def by (auto simp add: error_response_def)
qed


lemma example_resolution:
  "snd (resolve_command example_mapper ''open chrome'') =
     Inr \<lparr>m_action_name = None, m_module = Some ''apps'', m_function = Some ''open_app'',
          m_args = Some [''chrome''], m_kwargs = Some []\<rparr>"
  by code_simp

theorem execute_records_only_after_success_witness:
  "execute (example_handler ''guest'') example_modules True init_world ''open chrome'' =
     (error_response ''Permission denied'', init_world)
   \<and> execute (example_handler ''admin'') example_modules True init_world ''open chrome'' =
     ([(''status'', PStr ''success''), (''message'', PStr ''Command executed successfully''),
       (''function_executed'', PStr ''apps.open_app''), (''result'', PNone)],
      \<lparr>executed_stack =
         [\<lparr>function_path = ''apps.open_app'', args = [''chrome''], kwargs = [],
            reversible = False, undo_function_path = None\<rparr>],
       undone_stack = [], history = [(''apps.open_app'', ''EXECUTE'')],
       invoked = [(''apps.open_app'', [''chrome''], [])]\<rparr>)"
proof -
  let ?m = "\<lparr>m_action_name = None, m_module = Some ''apps'', m_function = Some ''open_app'',
          m_args = Some [''chrome''], m_kwargs = Some []\<rparr>"
  let ?f = "\<lambda>f. if f = ''open_app'' then Some (\<lambda>a k. Inr PNone) else None"
  have imp: "import_automation_module example_modules (get_str (m_module ?m)) = Inr ?f"
    by (simp add: import_automation_module_def example_modules_def get_str_def)
  have denied: "mapper (example_handler ''guest'') = Some example_mapper
           \<and> snd (resolve_command example_mapper ''open chrome'') = Inr ?m
           \<and> get_str (m_module ?m) \<noteq> [] \<and> get_str (m_function ?m) \<noteq> []
           \<and> import_automation_module example_modules (get_str (m_module ?m)) = Inr ?f
           \<and> ?f (get_str (m_function ?m)) = Some (\<lambda>a k. Inr PNone)
           \<and> permissions (example_handler ''guest'') = Some (\<lambda>u c. u = ''admin'')
           \<and> \<not> (\<lambda>u c. u = ''admin'') (user_id (example_handler ''guest''))
                 (get_str (m_module ?m) @ ''.'' @ get_str (m_function ?m))"
    using imp example_resolution by (simp add: example_handler_def get_str_def)
  note c2 = execute_records_only_after_success
      [of "example_handler ''guest''" example_modules True init_world "''open chrome''",
       THEN conjunct2, THEN conjunct1, rule_format,
       of example_mapper ?m ?f "\<lambda>a k. Inr PNone" "\<lambda>u c. u = ''admin''", OF denied]
  have guest: "execute (example_handler ''guest'') example_modules True init_world ''open chrome'' =
     (error_response ''Permission denied'', init_world)"
    using c2 by (simp add: prod_eq_iff)
  have admin: "execute (example_handler ''admin'') example_modules True init_world ''open chrome'' =
     ([(''status'', PStr ''success''), (''message'', PStr ''Command executed successfully''),
       (''function_executed'', PStr ''apps.open_app''), (''result'', PNone)],
      \<lparr>executed_stack =
         [\<lparr>function_path = ''apps.open_app'', args = [''chrome''], kwargs = [],
            reversible = False, undo_function_path = None\<rparr>],
       undone_stack = [], history = [(''apps.open_app'', ''EXECUTE'')],
       invoked = [(''apps.open_app'', [''chrome''], [])]\<rparr>)"
    using example_resolution
    by (simp add: execute_def example_handler_def Let_def get_str_def
        import_automation_module_def example_modules_def handler_record_action_def
        record_action_def log_history_def init_world_def)
  from guest admin show ?thesis by simp
qed


end
